theory Spec2Isabelle
  imports Main
begin

section \<open>The imageboard of app.py\<close>

text \<open>
  The program is a Flask application over three SQLAlchemy tables (Board, Thread, Post)
  and an upload directory. A request handler is modelled as a function from the state it
  can touch (the \<open>world\<close>: database, upload directory, flashed messages) to a response
  and the state it leaves. Everything a handler reads from outside the program is a
  parameter (the \<open>env\<close>): the clock, the random identifier drawn for an upload,
  werkzeug's \<open>secure_filename\<close>, and what the database and Python's \<open>int\<close> make of the
  text of a \<open>thread_id\<close> field.

  Strings are byte strings. Times are clock readings (microseconds), ordered as numbers.
  Column length limits (\<open>String(10)\<close>, \<open>String(100)\<close>, ...) are not modelled: the default
  SQLite backend does not enforce them. The request body limit (\<open>MAX_CONTENT_LENGTH\<close>) is
  enforced by the framework before a handler runs; the requests below are those that
  passed it.
\<close>

subsection \<open>Database models\<close>

type_synonym time = nat

record Board =
  Board_id :: nat
  Board_name :: string
  Board_title :: string
  Board_description :: string

record Thread =
  Thread_id :: nat
  Thread_board_id :: nat
  Thread_subject :: string
  Thread_created_at :: time
  Thread_bumped_at :: time
  Thread_is_pinned :: bool
  Thread_is_locked :: bool

record Post =
  Post_id :: nat
  Post_thread_id :: nat
  Post_name :: string
  Post_email :: string
  Post_subject :: string
  Post_comment :: string
  Post_filename :: "string option"
  Post_original_filename :: "string option"
  Post_file_size :: "nat option"
  Post_image_width :: "nat option"
  Post_image_height :: "nat option"
  Post_thumbnail :: "string option"
  Post_created_at :: time
  Post_post_number :: int

text \<open>The tables hold their rows in insertion order.\<close>

record database =
  boards :: "Board list"
  threads :: "Thread list"
  posts :: "Post list"

record world =
  db :: database
  uploads :: "string \<rightharpoonup> string"
  flashes :: "string list"

text \<open>
  What a request reads from outside: \<open>utcnow e k\<close> is the reading of the \<open>k\<close>-th call of
  \<open>datetime.utcnow()\<close> made while the request is handled (counted from 0), \<open>uuid8 e\<close> is
  \<open>str(uuid.uuid4())[:8]\<close>, and \<open>secure_filename e\<close> is werkzeug's function of that name.

  The \<open>thread_id\<close> of a reply is the text of a form field, and it is used as text
  throughout. \<open>key_of_text e s\<close> is the primary key that the database finds equal to the
  text \<open>s\<close> when it compares an integer column with it, or stores it in one (the default
  SQLite backend gives the column's integer affinity to the text: \<open>1\<close>, but also \<open>1.0\<close>
  and \<open>1e0\<close>, are equal to the key 1), and \<open>None\<close> when the text is equal to no key.
  \<open>int_of_text e s\<close> is Python's \<open>int(s)\<close>, \<open>None\<close> when it raises ValueError (as it
  does on \<open>1.0\<close>); the \<open>int\<close> converter of the route \<open>thread_view\<close> applies it when
  \<open>url_for\<close> builds the address of a thread.
\<close>

record env =
  secure_filename :: "string \<Rightarrow> string"
  uuid8 :: string
  utcnow :: "nat \<Rightarrow> time"
  key_of_text :: "string \<Rightarrow> nat option"
  int_of_text :: "string \<Rightarrow> int option"

datatype error = NotFound | BadRequest | ValidationError | Locked | Conflict | ServerError

datatype page =
    BoardPage string
  | ThreadPage string int
  | CreateBoardForm

type_synonym response = "error + page"

subsection \<open>Requests\<close>

text \<open>
  A form field is \<open>None\<close> when the request does not carry it, and \<open>Some s\<close> when it does
  (\<open>Some []\<close> is a field sent empty, as a browser sends a blank input).

  The \<open>thread_id\<close> field is text like the others: the handler never converts it.
\<close>

record FileStorage =
  fs_filename :: string
  fs_content :: string

record post_form =
  form_name :: "string option"
  form_email :: "string option"
  form_subject :: "string option"
  form_comment :: "string option"
  form_thread_id :: "string option"
  form_file :: "FileStorage option"

datatype http_method = GET | POST

record board_form =
  bform_name :: "string option"
  bform_title :: "string option"
  bform_description :: "string option"

subsection \<open>Queries\<close>

text \<open>\<open>request.form.get(key, default)\<close>: the default stands in for an absent field only.\<close>

definition form_get :: "string option \<Rightarrow> string \<Rightarrow> string" where
  "form_get field dflt = (case field of None \<Rightarrow> dflt | Some s \<Rightarrow> s)"

text \<open>An autoincrement primary key: one more than the largest key of the table.\<close>

definition next_id :: "nat list \<Rightarrow> nat" where
  "next_id ids = Suc (foldr max ids 0)"

text \<open>
  \<open>ORDER BY\<close>: a stable insertion sort by the relation \<open>le\<close> (\<open>le a b\<close>: row \<open>a\<close> may
  stand before row \<open>b\<close>), applied to the rows in insertion order. SQL leaves the order of
  rows with equal keys open; nothing below depends on it.
\<close>

fun insert_by :: "('a \<Rightarrow> 'a \<Rightarrow> bool) \<Rightarrow> 'a \<Rightarrow> 'a list \<Rightarrow> 'a list" where
  "insert_by le x [] = [x]"
| "insert_by le x (y # ys) = (if le x y then x # y # ys else y # insert_by le x ys)"

definition order_by :: "('a \<Rightarrow> 'a \<Rightarrow> bool) \<Rightarrow> 'a list \<Rightarrow> 'a list" where
  "order_by le xs = foldr (insert_by le) xs []"

definition flash :: "string \<Rightarrow> world \<Rightarrow> world" where
  "flash msg w = w\<lparr>flashes := flashes w @ [msg]\<rparr>"

definition thread_posts :: "database \<Rightarrow> nat \<Rightarrow> Post list" where
  "thread_posts d tid = filter (\<lambda>p. Post_thread_id p = tid) (posts d)"

subsection \<open>Helper functions\<close>

text \<open>
  \<open>str.lower()\<close> on the ASCII letters. Of the other characters only the Kelvin sign has an
  ASCII letter as its lower case (\<open>k\<close>), and no allowed extension holds a \<open>k\<close>, so the
  test in \<open>allowed_file\<close> is not affected; the name that \<open>generate_filename\<close> lower-cases
  comes out of \<open>secure_filename\<close> and is ASCII.
\<close>

definition lower_char :: "char \<Rightarrow> char" where
  "lower_char c =
     (case map_of (zip ''ABCDEFGHIJKLMNOPQRSTUVWXYZ'' ''abcdefghijklmnopqrstuvwxyz'') c of
        None \<Rightarrow> c | Some l \<Rightarrow> l)"

definition lower :: "string \<Rightarrow> string" where
  "lower s = map lower_char s"

text \<open>\<open>s.rsplit('.', 1)[1]\<close> for an \<open>s\<close> that holds a dot: the text after the last dot.\<close>

definition rsplit_ext :: "string \<Rightarrow> string" where
  "rsplit_ext s = rev (takeWhile (\<lambda>c. c \<noteq> CHR ''.'') (rev s))"

definition ALLOWED_EXTENSIONS :: "string set" where
  "ALLOWED_EXTENSIONS = {''png'', ''jpg'', ''jpeg'', ''gif'', ''webp'', ''webm'', ''mp4''}"

definition allowed_file :: "string \<Rightarrow> bool" where
  "allowed_file filename =
     (CHR ''.'' \<in> set filename \<and> lower (rsplit_ext filename) \<in> ALLOWED_EXTENSIONS)"

text \<open>
  \<open>generate_filename\<close> indexes the split at 1 without a test: on a name with no dot
  Python raises IndexError, and the request ends as a server error.
\<close>

definition generate_filename :: "env \<Rightarrow> string \<Rightarrow> error + string" where
  "generate_filename e original_filename =
     (if CHR ''.'' \<in> set original_filename
      then Inr (uuid8 e @ ''.'' @ lower (rsplit_ext original_filename))
      else Inl ServerError)"

definition post_number_desc :: "Post \<Rightarrow> Post \<Rightarrow> bool" where
  "post_number_desc p q = (Post_post_number q \<le> Post_post_number p)"

definition get_next_post_number :: "database \<Rightarrow> nat \<Rightarrow> int" where
  "get_next_post_number d thread_id =
     (case order_by post_number_desc (thread_posts d thread_id) of
        [] \<Rightarrow> 1
      | last_post # _ \<Rightarrow> Post_post_number last_post + 1)"

subsection \<open>board\_view\<close>

text \<open>
  \<open>ORDER BY is_pinned DESC, bumped_at DESC\<close>: a pinned row before an unpinned one, and
  among rows of one pin status the later \<open>bumped_at\<close> first.
\<close>

definition listing_order :: "Thread \<Rightarrow> Thread \<Rightarrow> bool" where
  "listing_order a b =
     (if Thread_is_pinned a = Thread_is_pinned b
      then Thread_bumped_at b \<le> Thread_bumped_at a
      else Thread_is_pinned a)"

definition created_at_asc :: "Post \<Rightarrow> Post \<Rightarrow> bool" where
  "created_at_asc p q = (Post_created_at p \<le> Post_created_at q)"

definition board_threads :: "database \<Rightarrow> nat \<Rightarrow> Thread list" where
  "board_threads d bid =
     order_by listing_order (filter (\<lambda>t. Thread_board_id t = bid) (threads d))"

text \<open>
  \<open>paginate(page, per_page, error_out=False)\<close>: a page below 1 is read as page 1, and
  the items are the rows from offset \<open>(page - 1) * per_page\<close>, at most \<open>per_page\<close> of them.
\<close>

definition paginate :: "int \<Rightarrow> nat \<Rightarrow> 'a list \<Rightarrow> 'a list" where
  "paginate page per_page rows =
     (let p = (if page < 1 then 1 else page)
      in take per_page (drop (nat (p - 1) * per_page) rows))"

record thread_summary =
  summary_thread :: Thread
  preview_posts :: "Post list"
  total_posts :: nat

definition summarise :: "database \<Rightarrow> Thread \<Rightarrow> thread_summary" where
  "summarise d thread =
     \<lparr>summary_thread = thread,
      preview_posts = take 5 (order_by created_at_asc (thread_posts d (Thread_id thread))),
      total_posts = length (thread_posts d (Thread_id thread))\<rparr>"

text \<open>
  \<open>page_arg\<close> is \<open>request.args.get('page', 1, type=int)\<close> before the default: \<open>None\<close> when
  the argument is absent or is no integer.
\<close>

definition board_view :: "string \<Rightarrow> int option \<Rightarrow> world \<Rightarrow> error + thread_summary list" where
  "board_view board_name page_arg w =
     (case find (\<lambda>b. Board_name b = board_name) (boards (db w)) of
        None \<Rightarrow> Inl NotFound
      | Some board \<Rightarrow>
          let page = (case page_arg of None \<Rightarrow> 1 | Some p \<Rightarrow> p)
          in Inr (map (summarise (db w))
                    (paginate page 10 (board_threads (db w) (Board_id board)))))"

subsection \<open>create\_post\<close>

text \<open>
  The upload step of \<open>create_post\<close>. An accepted file is written to the upload directory
  under its generated name; the result is the triple \<open>filename\<close>, \<open>original_filename\<close>,
  \<open>file_size\<close> (each \<open>None\<close> when no file was accepted) and the world after the write.
\<close>

record attachment =
  att_filename :: "string option"
  att_original_filename :: "string option"
  att_file_size :: "nat option"

definition no_attachment :: attachment where
  "no_attachment =
     \<lparr>att_filename = None, att_original_filename = None, att_file_size = None\<rparr>"

definition handle_upload :: "env \<Rightarrow> FileStorage option \<Rightarrow> world \<Rightarrow> error + (attachment \<times> world)" where
  "handle_upload e file w =
     (case file of
        None \<Rightarrow> Inr (no_attachment, w)
      | Some f \<Rightarrow>
          if fs_filename f \<noteq> [] \<and> allowed_file (fs_filename f) then
            (let original_filename = secure_filename e (fs_filename f)
             in case generate_filename e original_filename of
                  Inl err \<Rightarrow> Inl err
                | Inr filename \<Rightarrow>
                    Inr (\<lparr>att_filename = Some filename,
                          att_original_filename = Some original_filename,
                          att_file_size = Some (length (fs_content f))\<rparr>,
                         w\<lparr>uploads := (uploads w)(filename \<mapsto> fs_content f)\<rparr>))
          else Inr (no_attachment, w))"

text \<open>Python's \<open>not filename\<close> on a value that is \<open>None\<close> or a string.\<close>

definition falsy :: "string option \<Rightarrow> bool" where
  "falsy s = (s = None \<or> s = Some [])"

text \<open>The text of a field that is truthy: present and not empty.\<close>

definition truthy :: "string option \<Rightarrow> string option" where
  "truthy s = (if falsy s then None else s)"

text \<open>
  \<open>url_for('thread_view', board_name=board_name, thread_id=thread_id)\<close> with the text of
  the form as \<open>thread_id\<close>: the address is built with \<open>int(thread_id)\<close>, and a ValueError
  there is not caught, so the request ends as a server error.
\<close>

definition url_for_thread_view :: "env \<Rightarrow> string \<Rightarrow> string \<Rightarrow> response" where
  "url_for_thread_view e board_name thread_id =
     (case int_of_text e thread_id of
        None \<Rightarrow> Inl ServerError
      | Some n \<Rightarrow> Inr (ThreadPage board_name n))"

definition new_post :: "nat \<Rightarrow> nat \<Rightarrow> string \<Rightarrow> string \<Rightarrow> string \<Rightarrow> string \<Rightarrow> attachment \<Rightarrow> int \<Rightarrow> time \<Rightarrow> Post" where
  "new_post pid thread_id name email subject comment att post_number now =
     \<lparr>Post_id = pid, Post_thread_id = thread_id, Post_name = name, Post_email = email,
      Post_subject = subject, Post_comment = comment,
      Post_filename = att_filename att,
      Post_original_filename = att_original_filename att,
      Post_file_size = att_file_size att,
      Post_image_width = None, Post_image_height = None, Post_thumbnail = None,
      Post_created_at = now, Post_post_number = post_number\<rparr>"

definition add_post :: "Post \<Rightarrow> database \<Rightarrow> database" where
  "add_post p d = d\<lparr>posts := posts d @ [p]\<rparr>"

definition add_thread :: "Thread \<Rightarrow> database \<Rightarrow> database" where
  "add_thread t d = d\<lparr>threads := threads d @ [t]\<rparr>"

definition bump_thread :: "nat \<Rightarrow> time \<Rightarrow> database \<Rightarrow> database" where
  "bump_thread tid now d =
     d\<lparr>threads := map (\<lambda>t. if Thread_id t = tid then t\<lparr>Thread_bumped_at := now\<rparr> else t)
                      (threads d)\<rparr>"

text \<open>
  The handler in the order of the source: the board of the URL (404 when there is none),
  the form fields, the upload, and then either the creation of a thread (no \<open>thread_id\<close>)
  or a reply. The clock is read three times when a thread is created (for the thread's
  \<open>created_at\<close>, for its \<open>bumped_at\<close>, for the post's \<open>created_at\<close>) and twice on a reply
  (for the bump, for the post's \<open>created_at\<close>). A request that ends in an error before
  the commit leaves the database as it was, but a file already saved stays in the upload
  directory. Both redirects of the reply branch build the thread's address from the text
  of the form: when that raises, the locked reply has flashed its message and the accepted
  reply is already committed.
\<close>

definition create_post :: "env \<Rightarrow> string \<Rightarrow> post_form \<Rightarrow> world \<Rightarrow> response \<times> world" where
  "create_post e board_name form w =
     (case find (\<lambda>b. Board_name b = board_name) (boards (db w)) of
        None \<Rightarrow> (Inl NotFound, w)
      | Some board \<Rightarrow>
          let name = form_get (form_name form) ''Anonymous'';
              email = form_get (form_email form) [];
              subject = form_get (form_subject form) [];
              comment = form_get (form_comment form) []
          in (case handle_upload e (form_file form) w of
               Inl err \<Rightarrow> (Inl err, w)
             | Inr (att, w1) \<Rightarrow>
                 (case truthy (form_thread_id form) of
                    None \<Rightarrow>
                      if subject = [] \<and> comment = [] \<and> falsy (att_filename att) then
                        (Inl ValidationError,
                         flash ''Thread must have subject, comment, or image'' w1)
                      else
                        (let thread =
                               \<lparr>Thread_id = next_id (map Thread_id (threads (db w1))),
                                Thread_board_id = Board_id board,
                                Thread_subject = (if subject = [] then ''No Subject'' else subject),
                                Thread_created_at = utcnow e 0,
                                Thread_bumped_at = utcnow e 1,
                                Thread_is_pinned = False,
                                Thread_is_locked = False\<rparr>;
                             post = new_post (next_id (map Post_id (posts (db w1))))
                                      (Thread_id thread) name email subject comment att 1
                                      (utcnow e 2)
                         in (Inr (ThreadPage board_name (int (Thread_id thread))),
                             w1\<lparr>db := add_post post (add_thread thread (db w1))\<rparr>))
                  | Some thread_id \<Rightarrow>
                      (case key_of_text e thread_id of
                         None \<Rightarrow> (Inl NotFound, w1)
                       | Some k \<Rightarrow>
                           (case find (\<lambda>t. Thread_id t = k) (threads (db w1)) of
                              None \<Rightarrow> (Inl NotFound, w1)
                            | Some thread \<Rightarrow>
                                if Thread_is_locked thread then
                                  ((case url_for_thread_view e board_name thread_id of
                                      Inl err \<Rightarrow> Inl err
                                    | Inr target \<Rightarrow> Inl Locked),
                                   flash ''Thread is locked'' w1)
                                else
                                  (let post_number = get_next_post_number (db w1) k;
                                       post = new_post (next_id (map Post_id (posts (db w1))))
                                                k name email subject comment att
                                                post_number (utcnow e 1)
                                   in (url_for_thread_view e board_name thread_id,
                                       w1\<lparr>db := add_post post
                                                   (bump_thread k (utcnow e 0) (db w1))\<rparr>)))))))"

subsection \<open>create\_board\<close>

text \<open>
  \<open>request.form['name']\<close> on a form without the field is a bad request (400); a field
  that is present is taken as it is.
\<close>

definition create_board :: "http_method \<Rightarrow> board_form \<Rightarrow> world \<Rightarrow> response \<times> world" where
  "create_board meth form w =
     (case meth of
        GET \<Rightarrow> (Inr CreateBoardForm, w)
      | POST \<Rightarrow>
          (case bform_name form of
             None \<Rightarrow> (Inl BadRequest, w)
           | Some name \<Rightarrow>
               (case bform_title form of
                  None \<Rightarrow> (Inl BadRequest, w)
                | Some title \<Rightarrow>
                    let description = form_get (bform_description form) []
                    in if find (\<lambda>b. Board_name b = name) (boards (db w)) \<noteq> None then
                         (Inl Conflict, flash ''Board already exists'' w)
                       else
                         (Inr (BoardPage name),
                          flash ''Board created successfully''
                            (w\<lparr>db := (db w)\<lparr>boards := boards (db w) @
                                 [\<lparr>Board_id = next_id (map Board_id (boards (db w))),
                                   Board_name = name, Board_title = title,
                                   Board_description = description\<rparr>]\<rparr>\<rparr>)))))"

subsection \<open>Start-up and runs\<close>

text \<open>At start-up the tables are created and, when there is no board, three are added.\<close>

definition default_boards :: "Board list" where
  "default_boards =
     [\<lparr>Board_id = 1, Board_name = ''b'', Board_title = ''Random'',
       Board_description = ''Random discussions''\<rparr>,
      \<lparr>Board_id = 2, Board_name = ''g'', Board_title = ''Technology'',
       Board_description = ''Technology discussions''\<rparr>,
      \<lparr>Board_id = 3, Board_name = ''v'', Board_title = ''Video Games'',
       Board_description = ''Video game discussions''\<rparr>]"

definition create_tables :: "world \<Rightarrow> world" where
  "create_tables w =
     (if boards (db w) = [] then w\<lparr>db := (db w)\<lparr>boards := default_boards\<rparr>\<rparr> else w)"

definition empty_world :: world where
  "empty_world =
     \<lparr>db = \<lparr>boards = [], threads = [], posts = []\<rparr>, uploads = Map.empty, flashes = []\<rparr>"

definition initial_world :: world where
  "initial_world = create_tables empty_world"

text \<open>The requests that write, and a run of them from a world.\<close>

datatype request =
    CreatePost env string post_form
  | CreateBoard http_method board_form

fun handle :: "request \<Rightarrow> world \<Rightarrow> world" where
  "handle (CreatePost e board_name form) w = snd (create_post e board_name form w)"
| "handle (CreateBoard meth form) w = snd (create_board meth form w)"

definition run :: "request list \<Rightarrow> world \<Rightarrow> world" where
  "run reqs w = fold handle reqs w"

subsection \<open>Notions used in the statements\<close>

text \<open>
  \<open>listed_before a b\<close>: thread \<open>a\<close> may stand before thread \<open>b\<close> in a listing that has
  pinned threads before the others and, within one pin status, the more recently bumped
  thread first.
\<close>

definition listed_before :: "Thread \<Rightarrow> Thread \<Rightarrow> bool" where
  "listed_before a b \<longleftrightarrow>
     (Thread_is_pinned b \<longrightarrow> Thread_is_pinned a) \<and>
     (Thread_is_pinned a = Thread_is_pinned b \<longrightarrow> Thread_bumped_at b \<le> Thread_bumped_at a)"

text \<open>The post numbers of a thread, in the order in which its posts were inserted.\<close>

definition post_numbers :: "database \<Rightarrow> nat \<Rightarrow> int list" where
  "post_numbers d tid = map Post_post_number (thread_posts d tid)"

text \<open>
  The numbering invariant of the database: every post belongs to a thread of the table,
  and the posts of every thread are numbered 1, 2, 3, ... in insertion order.
\<close>

definition numbered :: "database \<Rightarrow> bool" where
  "numbered d \<longleftrightarrow>
     (\<forall>p \<in> set (posts d). Post_thread_id p \<in> Thread_id ` set (threads d)) \<and>
     (\<forall>tid. post_numbers d tid = map int [1..<Suc (length (thread_posts d tid))])"

subsection \<open>Example data\<close>

text \<open>The number that a non-empty text of decimal digits writes.\<close>

definition digit_of :: "char \<Rightarrow> nat option" where
  "digit_of c = map_of (zip ''0123456789'' [0, 1, 2, 3, 4, 5, 6, 7, 8, 9]) c"

fun digits_from :: "nat \<Rightarrow> string \<Rightarrow> nat option" where
  "digits_from n [] = Some n"
| "digits_from n (c # cs) =
     (case digit_of c of None \<Rightarrow> None | Some d \<Rightarrow> digits_from (10 * n + d) cs)"

definition decimal :: "string \<Rightarrow> nat option" where
  "decimal s = (if s = [] then None else digits_from 0 s)"

text \<open>
  An example of the two readings of a \<open>thread_id\<close> text. The database of the example
  finds decimal digits, and decimal digits followed by \<open>.0\<close>, equal to the key they write,
  as SQLite does; \<open>int\<close> of the example accepts decimal digits only, and raises on \<open>1.0\<close>
  as Python does. (SQLite and Python accept further texts, which the examples do not use.)
\<close>

definition example_key_of_text :: "string \<Rightarrow> nat option" where
  "example_key_of_text s =
     (case decimal s of
        Some k \<Rightarrow> Some k
      | None \<Rightarrow>
          (case rev s of
             c0 # c1 # r \<Rightarrow> if c0 = CHR ''0'' \<and> c1 = CHR ''.'' then decimal (rev r) else None
           | _ \<Rightarrow> None))"

definition example_int_of_text :: "string \<Rightarrow> int option" where
  "example_int_of_text s = map_option int (decimal s)"

text \<open>
  A sanitiser that leaves the (already safe) name alone, a fixed identifier, a clock that
  advances by one unit per reading, and the two readings above.
\<close>

definition example_env :: env where
  "example_env = \<lparr>secure_filename = (\<lambda>s. s), uuid8 = ''0a1b2c3d'', utcnow = (\<lambda>k. 1000 + k),
     key_of_text = example_key_of_text, int_of_text = example_int_of_text\<rparr>"

definition empty_form :: post_form where
  "empty_form = \<lparr>form_name = None, form_email = None, form_subject = None,
     form_comment = None, form_thread_id = None, form_file = None\<rparr>"

text \<open>The start-up world with one pinned, locked thread on board \<open>b\<close> and its first post.\<close>

definition locked_thread :: Thread where
  "locked_thread = \<lparr>Thread_id = 1, Thread_board_id = 1, Thread_subject = ''Rules'',
     Thread_created_at = 10, Thread_bumped_at = 10, Thread_is_pinned = True,
     Thread_is_locked = True\<rparr>"

definition locked_world :: world where
  "locked_world = initial_world\<lparr>db := add_post
      (new_post 1 1 ''Anonymous'' [] ''Rules'' ''Be nice'' no_attachment 1 10)
      (add_thread locked_thread (db initial_world))\<rparr>"

text \<open>A form that starts a thread, and a reply whose \<open>thread_id\<close> field is \<open>raw\<close>.\<close>

definition hello_form :: post_form where
  "hello_form = empty_form\<lparr>form_comment := Some ''hello''\<rparr>"

definition reply_form :: "string \<Rightarrow> post_form" where
  "reply_form raw = empty_form\<lparr>form_comment := Some ''reply'', form_thread_id := Some raw\<rparr>"

text \<open>
  Three threads on board \<open>b\<close> (the second pinned, the third bumped last) and one on
  board \<open>g\<close>.
\<close>

definition listing_world :: world where
  "listing_world = initial_world\<lparr>db := (db initial_world)\<lparr>threads :=
     [\<lparr>Thread_id = 1, Thread_board_id = 1, Thread_subject = ''old'',
       Thread_created_at = 10, Thread_bumped_at = 20, Thread_is_pinned = False,
       Thread_is_locked = False\<rparr>,
      \<lparr>Thread_id = 2, Thread_board_id = 1, Thread_subject = ''pinned'',
       Thread_created_at = 11, Thread_bumped_at = 11, Thread_is_pinned = True,
       Thread_is_locked = False\<rparr>,
      \<lparr>Thread_id = 3, Thread_board_id = 1, Thread_subject = ''new'',
       Thread_created_at = 12, Thread_bumped_at = 30, Thread_is_pinned = False,
       Thread_is_locked = False\<rparr>,
      \<lparr>Thread_id = 4, Thread_board_id = 2, Thread_subject = ''elsewhere'',
       Thread_created_at = 13, Thread_bumped_at = 40, Thread_is_pinned = False,
       Thread_is_locked = False\<rparr>]\<rparr>\<rparr>"

text \<open>
  An upload that the allow-list rejects and one that it accepts.
\<close>

definition exe_upload :: FileStorage where
  "exe_upload = \<lparr>fs_filename = ''setup.exe'', fs_content = ''MZ''\<rparr>"

definition png_upload :: FileStorage where
  "png_upload = \<lparr>fs_filename = ''cat.PNG'', fs_content = ''abc''\<rparr>"

text \<open>
  The start-up world with one open thread on board \<open>b\<close> and its first post.
\<close>

definition open_thread :: Thread where
  "open_thread = \<lparr>Thread_id = 1, Thread_board_id = 1, Thread_subject = ''No Subject'',
     Thread_created_at = 10, Thread_bumped_at = 10, Thread_is_pinned = False,
     Thread_is_locked = False\<rparr>"

definition open_world :: world where
  "open_world = initial_world\<lparr>db := add_post
      (new_post 1 1 ''Anonymous'' [] [] ''hello'' no_attachment 1 10)
      (add_thread open_thread (db initial_world))\<rparr>"

section \<open>Sorting and listing\<close>

text \<open>The definitions that a concrete run unfolds.\<close>

lemmas world_defs = initial_world_def create_tables_def empty_world_def default_boards_def

lemmas form_defs = empty_form_def hello_form_def reply_form_def example_env_def
  example_key_of_text_def example_int_of_text_def decimal_def digit_of_def

lemmas handler_defs = create_post_def create_board_def handle_upload_def generate_filename_def
  allowed_file_def rsplit_ext_def lower_def lower_char_def ALLOWED_EXTENSIONS_def
  form_get_def falsy_def truthy_def url_for_thread_view_def no_attachment_def new_post_def add_post_def add_thread_def
  bump_thread_def next_id_def flash_def get_next_post_number_def thread_posts_def
  order_by_def post_number_desc_def Let_def

lemma set_insert_by: "set (insert_by le x xs) = insert x (set xs)"
  by (induction xs) auto

lemma length_insert_by: "length (insert_by le x xs) = Suc (length xs)"
  by (induction xs) auto

lemma set_order_by: "set (order_by le xs) = set xs"
  unfolding order_by_def by (induction xs) (auto simp: set_insert_by)

lemma length_order_by: "length (order_by le xs) = length xs"
  unfolding order_by_def by (induction xs) (auto simp: length_insert_by)

lemma sorted_insert_by:
  assumes total: "\<And>a b. le a b \<or> le b a"
    and trans: "\<And>a b c. le a b \<Longrightarrow> le b c \<Longrightarrow> le a c"
  shows "sorted_wrt le xs \<Longrightarrow> sorted_wrt le (insert_by le x xs)"
proof (induction xs)
  case Nil
  then show ?case by simp
next
  case (Cons y ys)
  show ?case
  proof (cases "le x y")
    case True
    with Cons.prems trans show ?thesis by auto
  next
    case False
    with total have "le y x" by blast
    with Cons False show ?thesis by (auto simp: set_insert_by)
  qed
qed

lemma sorted_order_by:
  assumes total: "\<And>a b. le a b \<or> le b a"
    and trans: "\<And>a b c. le a b \<Longrightarrow> le b c \<Longrightarrow> le a c"
  shows "sorted_wrt le (order_by le xs)"
  unfolding order_by_def
  by (induction xs) (auto intro: sorted_insert_by [OF total trans])

lemma listing_order_total: "listing_order a b \<or> listing_order b a"
  by (auto simp: listing_order_def)

lemma listing_order_trans: "listing_order a b \<Longrightarrow> listing_order b c \<Longrightarrow> listing_order a c"
  by (auto simp: listing_order_def split: if_splits)

lemma sorted_board_threads: "sorted_wrt listing_order (board_threads d bid)"
  unfolding board_threads_def
  by (rule sorted_order_by [OF listing_order_total listing_order_trans])

lemma sorted_paginate: "sorted_wrt le rows \<Longrightarrow> sorted_wrt le (paginate page per_page rows)"
  by (simp add: paginate_def Let_def sorted_wrt_take sorted_wrt_drop)

lemma listing_order_iff:
  "listing_order a b \<longleftrightarrow>
     (Thread_is_pinned b \<longrightarrow> Thread_is_pinned a) \<and>
     (Thread_is_pinned a = Thread_is_pinned b \<longrightarrow> Thread_bumped_at b \<le> Thread_bumped_at a)"
  by (auto simp: listing_order_def)

text \<open>
  Claim C2. The ordered thread listing of a board holds exactly the threads of that board,
  and any thread that stands before another in it satisfies \<open>listed_before\<close>: no unpinned
  thread stands before a pinned one, whatever their \<open>bumped_at\<close>, and of two threads of
  the same pin status the one bumped later stands first. The same holds for the items of
  every page that \<open>board_view\<close> returns, a page being a slice of the listing.
\<close>

theorem C2_pinned_then_bumped:
  "sorted_wrt listed_before (board_threads d bid) \<and>
   set (board_threads d bid) = {t \<in> set (threads d). Thread_board_id t = bid} \<and>
   length (board_threads d bid) = length (filter (\<lambda>t. Thread_board_id t = bid) (threads d)) \<and>
   (\<forall>items. board_view board_name page_arg w = Inr items \<longrightarrow>
      sorted_wrt listed_before (map summary_thread items))"
proof -
  have eq: "listed_before = listing_order"
    by (intro ext) (simp add: listed_before_def listing_order_iff)
  have 1: "sorted_wrt listed_before (board_threads d bid)"
    unfolding eq by (rule sorted_board_threads)
  have 2: "set (board_threads d bid) = {t \<in> set (threads d). Thread_board_id t = bid}"
    by (auto simp: board_threads_def set_order_by)
  have 3: "length (board_threads d bid) = length (filter (\<lambda>t. Thread_board_id t = bid) (threads d))"
    by (simp add: board_threads_def length_order_by)
  have 4: "sorted_wrt listed_before (map summary_thread items)"
    if "board_view board_name page_arg w = Inr items" for items
  proof (cases "find (\<lambda>b. Board_name b = board_name) (boards (db w))")
    case None
    with that show ?thesis by (simp add: board_view_def)
  next
    case (Some board)
    with that have items: "items = map (summarise (db w))
                (paginate (case page_arg of None \<Rightarrow> 1 | Some p \<Rightarrow> p) 10
                   (board_threads (db w) (Board_id board)))"
      by (simp add: board_view_def Let_def)
    have "map summary_thread items =
            paginate (case page_arg of None \<Rightarrow> 1 | Some p \<Rightarrow> p) 10
              (board_threads (db w) (Board_id board))"
      unfolding items by (simp add: comp_def summarise_def)
    then show ?thesis
      unfolding eq by (simp add: sorted_paginate sorted_board_threads)
  qed
  from 1 2 3 4 show ?thesis by blast
qed

theorem C2_pinned_then_bumped_witness:
  "\<exists>items. board_view ''b'' None listing_world = Inr items \<and>
      map (\<lambda>s. Thread_id (summary_thread s)) items = [2, 3, 1] \<and>
      sorted_wrt listed_before (map summary_thread items)"
proof -
  obtain items where bv: "board_view ''b'' None listing_world = Inr items"
    by (simp add: board_view_def world_defs listing_world_def)
  then have ids: "map (\<lambda>s. Thread_id (summary_thread s)) items = [2, 3, 1]"
    by (auto simp: board_view_def world_defs listing_world_def board_threads_def order_by_def listing_order_def
        paginate_def summarise_def Let_def)
  from C2_pinned_then_bumped [of "db listing_world" 1 "''b''" None listing_world] bv
  have "sorted_wrt listed_before (map summary_thread items)" by blast
  with bv ids show ?thesis by (intro exI [of _ items] conjI)
qed

section \<open>Post numbers\<close>

lemma order_by_Nil_iff: "order_by le xs = [] \<longleftrightarrow> xs = []"
  using length_order_by [of le xs] by (metis length_0_conv)

lemma post_number_desc_total: "post_number_desc a b \<or> post_number_desc b a"
  by (auto simp: post_number_desc_def)

lemma post_number_desc_trans:
  "post_number_desc a b \<Longrightarrow> post_number_desc b c \<Longrightarrow> post_number_desc a c"
  by (auto simp: post_number_desc_def)

lemma get_next_post_number_Max:
  "get_next_post_number d tid =
     (if thread_posts d tid = [] then 1
      else Max (Post_post_number ` set (thread_posts d tid)) + 1)"
proof (cases "order_by post_number_desc (thread_posts d tid)")
  case Nil
  then have "thread_posts d tid = []" by (simp add: order_by_Nil_iff)
  with Nil show ?thesis
    by (simp add: get_next_post_number_def)
next
  case (Cons x xs)
  have "sorted_wrt post_number_desc (order_by post_number_desc (thread_posts d tid))"
    by (rule sorted_order_by [OF post_number_desc_total post_number_desc_trans])
  then have srt: "sorted_wrt post_number_desc (x # xs)"
    by (simp only: Cons)
  have st: "set (thread_posts d tid) = insert x (set xs)"
    using set_order_by [of post_number_desc "thread_posts d tid"] by (simp add: Cons)
  have ne: "thread_posts d tid \<noteq> []"
    using Cons order_by_Nil_iff [of post_number_desc "thread_posts d tid"] by simp
  have "Max (Post_post_number ` set (thread_posts d tid)) = Post_post_number x"
  proof (rule Max_eqI)
    show "finite (Post_post_number ` set (thread_posts d tid))" by simp
    show "Post_post_number x \<in> Post_post_number ` set (thread_posts d tid)"
      by (simp add: st)
    fix n assume "n \<in> Post_post_number ` set (thread_posts d tid)"
    then show "n \<le> Post_post_number x"
      using srt by (auto simp: st post_number_desc_def)
  qed
  with Cons ne show ?thesis
    by (simp add: get_next_post_number_def)
qed

lemma Max_upto_int: "Max (set (map int [1..<Suc (Suc n)])) = int (Suc n)"
proof (rule Max_eqI)
  show "finite (set (map int [1..<Suc (Suc n)]))" by simp
  have "Suc n \<in> {1..<Suc (Suc n)}" by simp
  then show "int (Suc n) \<in> set (map int [1..<Suc (Suc n)])"
    unfolding set_map set_upt by (rule imageI)
  fix y assume "y \<in> set (map int [1..<Suc (Suc n)])"
  then show "y \<le> int (Suc n)" by (auto simp del: upt_Suc)
qed

lemma numbered_next:
  assumes "numbered d"
  shows "get_next_post_number d tid = int (Suc (length (thread_posts d tid)))"
proof (cases "thread_posts d tid")
  case Nil
  then show ?thesis by (simp add: get_next_post_number_Max)
next
  case (Cons p ps)
  from assms have "post_numbers d tid = map int [1..<Suc (length (thread_posts d tid))]"
    by (simp add: numbered_def)
  then have "Post_post_number ` set (thread_posts d tid) = set (map int [1..<Suc (Suc (length ps))])"
    unfolding post_numbers_def Cons by (metis list.set_map length_Cons)
  then have "Max (Post_post_number ` set (thread_posts d tid)) = int (Suc (length ps))"
    by (simp only: Max_upto_int)
  with Cons show ?thesis by (simp add: get_next_post_number_Max)
qed

lemma next_id_fresh: "next_id ids \<notin> set ids"
proof -
  have "x \<le> foldr max ids 0" if "x \<in> set ids" for x
    using that by (induction ids) auto
  then show ?thesis unfolding next_id_def by fastforce
qed

lemma db_flash [simp]: "db (flash msg w) = db w"
  by (simp add: flash_def)

lemma handle_upload_db: "handle_upload e file w = Inr (att, w1) \<Longrightarrow> db w1 = db w"
  by (auto simp: handle_upload_def Let_def split: option.splits if_splits sum.splits)

section \<open>The effect of a request on the database\<close>

lemma thread_posts_add_post:
  "thread_posts (add_post p d) tid =
     thread_posts d tid @ (if Post_thread_id p = tid then [p] else [])"
  by (simp add: thread_posts_def add_post_def)

lemma thread_posts_add_thread [simp]: "thread_posts (add_thread t d) tid = thread_posts d tid"
  by (simp add: thread_posts_def add_thread_def)

lemma thread_posts_bump_thread [simp]:
  "thread_posts (bump_thread k now d) tid = thread_posts d tid"
  by (simp add: thread_posts_def bump_thread_def)

lemma posts_bump_thread [simp]: "posts (bump_thread k now d) = posts d"
  by (simp add: bump_thread_def)

lemma thread_ids_bump_thread [simp]:
  "map Thread_id (threads (bump_thread k now d)) = map Thread_id (threads d)"
  by (simp add: bump_thread_def comp_def)

lemma numbered_bump_thread: "numbered d \<Longrightarrow> numbered (bump_thread k now d)"
proof -
  have "Thread_id ` set (threads (bump_thread k now d)) = Thread_id ` set (threads d)"
    using thread_ids_bump_thread [of k now d] by (metis list.set_map)
  then show "numbered d \<Longrightarrow> numbered (bump_thread k now d)"
    by (simp add: numbered_def post_numbers_def)
qed

lemma numbered_add_post:
  assumes "numbered d"
    and "Post_thread_id p \<in> Thread_id ` set (threads d)"
    and "Post_post_number p = int (Suc (length (thread_posts d (Post_thread_id p))))"
  shows "numbered (add_post p d)"
proof -
  have wf: "\<forall>q \<in> set (posts (add_post p d)).
              Post_thread_id q \<in> Thread_id ` set (threads (add_post p d))"
    using assms(1,2) by (auto simp: numbered_def add_post_def)
  have num: "post_numbers (add_post p d) tid =
               map int [1..<Suc (length (thread_posts (add_post p d) tid))]" for tid
  proof (cases "Post_thread_id p = tid")
    case True
    from assms(1) have "post_numbers d tid = map int [1..<Suc (length (thread_posts d tid))]"
      by (simp add: numbered_def)
    with True assms(3) show ?thesis
      by (simp add: post_numbers_def thread_posts_add_post)
  next
    case False
    with assms(1) show ?thesis
      by (simp add: numbered_def post_numbers_def thread_posts_add_post)
  qed
  from wf num show ?thesis unfolding numbered_def by blast
qed

lemma numbered_new_thread:
  assumes "numbered d"
    and "Thread_id t = next_id (map Thread_id (threads d))"
    and "Post_thread_id p = Thread_id t"
    and "Post_post_number p = 1"
  shows "numbered (add_post p (add_thread t d))"
proof -
  have fresh: "Thread_id t \<notin> Thread_id ` set (threads d)"
    using next_id_fresh [of "map Thread_id (threads d)"] assms(2) by simp
  have nil: "thread_posts d (Thread_id t) = []"
  proof -
    have "Post_thread_id q \<noteq> Thread_id t" if "q \<in> set (posts d)" for q
      using assms(1) fresh that unfolding numbered_def by metis
    then show ?thesis by (simp add: thread_posts_def filter_empty_conv)
  qed
  have n1: "numbered (add_thread t d)"
    using assms(1) by (auto simp: numbered_def post_numbers_def add_thread_def thread_posts_def)
  show ?thesis
  proof (rule numbered_add_post [OF n1])
    show "Post_thread_id p \<in> Thread_id ` set (threads (add_thread t d))"
      by (simp add: assms(3) add_thread_def)
    show "Post_post_number p =
            int (Suc (length (thread_posts (add_thread t d) (Post_thread_id p))))"
      by (simp add: assms(3,4) nil)
  qed
qed

text \<open>The paths of create_post, one equation each.\<close>

lemma truthy_None: "truthy s = None \<longleftrightarrow> s = None \<or> s = Some []"
  by (auto simp: truthy_def falsy_def)

lemma truthy_Some: "truthy s = Some raw \<longleftrightarrow> s = Some raw \<and> raw \<noteq> []"
  by (auto simp: truthy_def falsy_def)

lemma create_post_no_board:
  "find (\<lambda>b. Board_name b = bn) (boards (db w)) = None \<Longrightarrow>
   create_post e bn form w = (Inl NotFound, w)"
  by (simp add: create_post_def)

lemma create_post_upload_error:
  "find (\<lambda>b. Board_name b = bn) (boards (db w)) = Some board \<Longrightarrow>
   handle_upload e (form_file form) w = Inl err \<Longrightarrow>
   create_post e bn form w = (Inl err, w)"
  by (simp add: create_post_def Let_def)

lemma create_post_invalid:
  "find (\<lambda>b. Board_name b = bn) (boards (db w)) = Some board \<Longrightarrow>
   handle_upload e (form_file form) w = Inr (att, w1) \<Longrightarrow>
   truthy (form_thread_id form) = None \<Longrightarrow>
   form_get (form_subject form) [] = [] \<and> form_get (form_comment form) [] = [] \<and>
     falsy (att_filename att) \<Longrightarrow>
   create_post e bn form w =
     (Inl ValidationError, flash ''Thread must have subject, comment, or image'' w1)"
  by (simp add: create_post_def Let_def)

lemma create_post_new_thread:
  "find (\<lambda>b. Board_name b = bn) (boards (db w)) = Some board \<Longrightarrow>
   handle_upload e (form_file form) w = Inr (att, w1) \<Longrightarrow>
   truthy (form_thread_id form) = None \<Longrightarrow>
   \<not> (form_get (form_subject form) [] = [] \<and> form_get (form_comment form) [] = [] \<and>
        falsy (att_filename att)) \<Longrightarrow>
   create_post e bn form w =
     (Inr (ThreadPage bn (int (next_id (map Thread_id (threads (db w1)))))),
      w1\<lparr>db := add_post
          (new_post (next_id (map Post_id (posts (db w1))))
             (next_id (map Thread_id (threads (db w1))))
             (form_get (form_name form) ''Anonymous'') (form_get (form_email form) [])
             (form_get (form_subject form) []) (form_get (form_comment form) []) att 1
             (utcnow e 2))
          (add_thread
             \<lparr>Thread_id = next_id (map Thread_id (threads (db w1))),
              Thread_board_id = Board_id board,
              Thread_subject = (if form_get (form_subject form) [] = [] then ''No Subject''
                                else form_get (form_subject form) []),
              Thread_created_at = utcnow e 0, Thread_bumped_at = utcnow e 1,
              Thread_is_pinned = False, Thread_is_locked = False\<rparr>
             (db w1))\<rparr>)"
  by (simp add: create_post_def Let_def)

lemma create_post_no_key:
  "find (\<lambda>b. Board_name b = bn) (boards (db w)) = Some board \<Longrightarrow>
   handle_upload e (form_file form) w = Inr (att, w1) \<Longrightarrow>
   truthy (form_thread_id form) = Some raw \<Longrightarrow>
   key_of_text e raw = None \<Longrightarrow>
   create_post e bn form w = (Inl NotFound, w1)"
  by (simp add: create_post_def Let_def)

lemma create_post_no_thread:
  "find (\<lambda>b. Board_name b = bn) (boards (db w)) = Some board \<Longrightarrow>
   handle_upload e (form_file form) w = Inr (att, w1) \<Longrightarrow>
   truthy (form_thread_id form) = Some raw \<Longrightarrow>
   key_of_text e raw = Some k \<Longrightarrow>
   find (\<lambda>t. Thread_id t = k) (threads (db w1)) = None \<Longrightarrow>
   create_post e bn form w = (Inl NotFound, w1)"
  by (simp add: create_post_def Let_def)

lemma create_post_locked:
  "find (\<lambda>b. Board_name b = bn) (boards (db w)) = Some board \<Longrightarrow>
   handle_upload e (form_file form) w = Inr (att, w1) \<Longrightarrow>
   truthy (form_thread_id form) = Some raw \<Longrightarrow>
   key_of_text e raw = Some k \<Longrightarrow>
   find (\<lambda>t. Thread_id t = k) (threads (db w1)) = Some t \<Longrightarrow>
   Thread_is_locked t \<Longrightarrow>
   create_post e bn form w =
     (if int_of_text e raw = None then Inl ServerError else Inl Locked,
      flash ''Thread is locked'' w1)"
  by (simp add: create_post_def Let_def url_for_thread_view_def split: option.split)

lemma create_post_reply:
  "find (\<lambda>b. Board_name b = bn) (boards (db w)) = Some board \<Longrightarrow>
   handle_upload e (form_file form) w = Inr (att, w1) \<Longrightarrow>
   truthy (form_thread_id form) = Some raw \<Longrightarrow>
   key_of_text e raw = Some k \<Longrightarrow>
   find (\<lambda>t. Thread_id t = k) (threads (db w1)) = Some t \<Longrightarrow>
   \<not> Thread_is_locked t \<Longrightarrow>
   create_post e bn form w =
     (url_for_thread_view e bn raw,
      w1\<lparr>db := add_post
          (new_post (next_id (map Post_id (posts (db w1)))) k
             (form_get (form_name form) ''Anonymous'') (form_get (form_email form) [])
             (form_get (form_subject form) []) (form_get (form_comment form) []) att
             (get_next_post_number (db w1) k) (utcnow e 1))
          (bump_thread k (utcnow e 0) (db w1))\<rparr>)"
  by (simp add: create_post_def Let_def)

text \<open>What create_post does to the database, by cases.\<close>

lemma create_post_db:
  "db (snd (create_post e bn form w)) = db w \<or>
   (\<exists>t p. Thread_id t = next_id (map Thread_id (threads (db w))) \<and>
      Post_thread_id p = Thread_id t \<and> Post_post_number p = 1 \<and>
      db (snd (create_post e bn form w)) = add_post p (add_thread t (db w))) \<or>
   (\<exists>k t p. find (\<lambda>t. Thread_id t = k) (threads (db w)) = Some t \<and>
      Post_thread_id p = k \<and>
      Post_post_number p = get_next_post_number (db w) k \<and>
      db (snd (create_post e bn form w)) = add_post p (bump_thread k (utcnow e 0) (db w)))"
  (is "?same \<or> ?new \<or> ?reply")
proof (cases "find (\<lambda>b. Board_name b = bn) (boards (db w))")
  case None
  then show ?thesis by (simp add: create_post_no_board)
next
  case board: (Some board)
  show ?thesis
  proof (cases "handle_upload e (form_file form) w")
    case (Inl err)
    with board show ?thesis by (simp add: create_post_upload_error)
  next
    case (Inr r)
    obtain att w1 where r: "r = (att, w1)" by (cases r)
    note up = Inr [unfolded r]
    have d1: "db w1 = db w" using up by (rule handle_upload_db)
    show ?thesis
    proof (cases "truthy (form_thread_id form)")
      case None
      show ?thesis
      proof (cases "form_get (form_subject form) [] = [] \<and>
                    form_get (form_comment form) [] = [] \<and> falsy (att_filename att)")
        case True
        then show ?thesis
          using create_post_invalid [OF board up None] d1 by simp
      next
        case False
        have ?new
          unfolding create_post_new_thread [OF board up None False]
          by (intro exI conjI) (simp_all add: d1 new_post_def)
        then show ?thesis by blast
      qed
    next
      case raw: (Some raw)
      show ?thesis
      proof (cases "key_of_text e raw")
        case None
        then show ?thesis
          using create_post_no_key [OF board up raw] d1 by simp
      next
        case k: (Some k)
        show ?thesis
        proof (cases "find (\<lambda>t. Thread_id t = k) (threads (db w1))")
          case None
          then show ?thesis
            using create_post_no_thread [OF board up raw k] d1 by simp
        next
          case t: (Some t)
          show ?thesis
          proof (cases "Thread_is_locked t")
            case True
            then show ?thesis
              using create_post_locked [OF board up raw k t] d1 by simp
          next
            case False
            have ?reply
              unfolding create_post_reply [OF board up raw k t False]
              by (intro exI conjI) (use t in \<open>simp_all add: d1 new_post_def\<close>)
            then show ?thesis by blast
          qed
        qed
      qed
    qed
  qed
qed

lemma find_Some_mem: "find P xs = Some x \<Longrightarrow> x \<in> set xs \<and> P x"
  by (induction xs) (auto split: if_splits)

lemma numbered_create_post:
  assumes "numbered (db w)"
  shows "numbered (db (snd (create_post e bn form w)))"
proof -
  consider
    (same) "db (snd (create_post e bn form w)) = db w"
  | (new) t p where "Thread_id t = next_id (map Thread_id (threads (db w)))"
      "Post_thread_id p = Thread_id t" "Post_post_number p = 1"
      "db (snd (create_post e bn form w)) = add_post p (add_thread t (db w))"
  | (reply) tid t p where "find (\<lambda>t. Thread_id t = tid) (threads (db w)) = Some t"
      "Post_thread_id p = tid" "Post_post_number p = get_next_post_number (db w) tid"
      "db (snd (create_post e bn form w)) = add_post p (bump_thread tid (utcnow e 0) (db w))"
    using create_post_db [of e bn form w] by blast
  then show ?thesis
  proof cases
    case same
    with assms show ?thesis by simp
  next
    case new
    with assms show ?thesis by (simp add: numbered_new_thread)
  next
    case reply
    have mem: "tid \<in> Thread_id ` set (threads (db w))"
      using find_Some_mem [OF reply(1)] by auto
    have "numbered (add_post p (bump_thread tid (utcnow e 0) (db w)))"
    proof (rule numbered_add_post [OF numbered_bump_thread [OF assms]])
      show "Post_thread_id p \<in> Thread_id ` set (threads (bump_thread tid (utcnow e 0) (db w)))"
        using mem thread_ids_bump_thread [of tid "utcnow e 0" "db w"] reply(2)
        by (metis list.set_map)
      show "Post_post_number p =
              int (Suc (length (thread_posts (bump_thread tid (utcnow e 0) (db w))
                                  (Post_thread_id p))))"
        using reply(2,3) numbered_next [OF assms, of tid] by simp
    qed
    with reply(4) show ?thesis by simp
  qed
qed

lemma create_board_posts_threads:
  "posts (db (snd (create_board m form w))) = posts (db w) \<and>
   threads (db (snd (create_board m form w))) = threads (db w)"
  by (simp add: create_board_def Let_def flash_def split: http_method.splits option.splits)

lemma numbered_create_board:
  "numbered (db w) \<Longrightarrow> numbered (db (snd (create_board m form w)))"
  using create_board_posts_threads [of m form w]
  by (simp add: numbered_def post_numbers_def thread_posts_def)

lemma numbered_handle: "numbered (db w) \<Longrightarrow> numbered (db (handle r w))"
  by (cases r) (simp_all add: numbered_create_post numbered_create_board)

lemma numbered_run: "numbered (db w) \<Longrightarrow> numbered (db (run reqs w))"
  unfolding run_def by (induction reqs arbitrary: w) (simp_all add: numbered_handle)

lemma numbered_initial: "numbered (db initial_world)"
  by (simp add: numbered_def post_numbers_def thread_posts_def initial_world_def
      create_tables_def empty_world_def)

text \<open>
  Claim C1. \<open>get_next_post_number\<close> returns one more than the largest post number among
  the posts of the thread, and 1 when the thread has no post. Consequently, in every world
  reached from start-up by any sequence of \<open>create_post\<close> and \<open>create_board\<close> requests,
  the post numbers of each thread, read in the order in which the posts were appended, are
  1, 2, ..., n: they start at 1 and grow by exactly 1 with each appended post. A request
  only ever appends to the posts table: it leaves the table as it was or adds one row at
  its end, so a post keeps the number it was given.
\<close>

theorem C1_next_post_number:
  "get_next_post_number d tid =
     (if thread_posts d tid = [] then 1
      else Max (Post_post_number ` set (thread_posts d tid)) + 1) \<and>
   map Post_post_number (thread_posts (db (run reqs initial_world)) tid) =
     map int [1..<Suc (length (thread_posts (db (run reqs initial_world)) tid))] \<and>
   (posts (db (handle r w)) = posts (db w) \<or>
    (\<exists>p. posts (db (handle r w)) = posts (db w) @ [p]))"
proof -
  have "numbered (db (run reqs initial_world))"
    by (rule numbered_run [OF numbered_initial])
  then have 1: "map Post_post_number (thread_posts (db (run reqs initial_world)) tid) =
     map int [1..<Suc (length (thread_posts (db (run reqs initial_world)) tid))]"
    by (simp add: numbered_def post_numbers_def)
  have 2: "posts (db (handle r w)) = posts (db w) \<or>
    (\<exists>p. posts (db (handle r w)) = posts (db w) @ [p])"
  proof (cases r)
    case (CreatePost e bn form)
    with create_post_db [of e bn form w] show ?thesis
      by (auto simp: add_post_def add_thread_def bump_thread_def)
  next
    case (CreateBoard meth bform)
    with create_board_posts_threads [of meth bform w] show ?thesis by simp
  qed
  from 1 2 show ?thesis
    by (simp only: get_next_post_number_Max simp_thms)
qed

theorem C1_next_post_number_witness:
  "map Post_post_number (thread_posts (db (run
      [CreatePost example_env ''b'' hello_form, CreatePost example_env ''b'' (reply_form ''1''),
       CreatePost example_env ''g'' hello_form, CreatePost example_env ''b'' (reply_form ''1'')]
      initial_world)) 1) = [1, 2, 3]"
proof -
  let ?w = "run
      [CreatePost example_env ''b'' hello_form, CreatePost example_env ''b'' (reply_form ''1''),
       CreatePost example_env ''g'' hello_form, CreatePost example_env ''b'' (reply_form ''1'')]
      initial_world"
  have "length (thread_posts (db ?w) 1) = 3"
    by (simp add: run_def handler_defs world_defs form_defs)
  with C1_next_post_number [of "db ?w" 1 "[CreatePost example_env ''b'' hello_form,
       CreatePost example_env ''b'' (reply_form ''1''), CreatePost example_env ''g'' hello_form,
       CreatePost example_env ''b'' (reply_form ''1'')]"]
  show ?thesis by (simp add: numeral_3_eq_3)
qed

section \<open>Rejected requests\<close>

lemma handle_upload_rejected:
  "(case file of None \<Rightarrow> True
    | Some f \<Rightarrow> \<not> (fs_filename f \<noteq> [] \<and> allowed_file (fs_filename f))) \<Longrightarrow>
   handle_upload e file w = Inr (no_attachment, w)"
  by (auto simp: handle_upload_def split: option.splits)

lemma handle_upload_falsy:
  "handle_upload e file w = Inr (att, w1) \<Longrightarrow> falsy (att_filename att) \<Longrightarrow> w1 = w"
  by (auto simp: handle_upload_def generate_filename_def Let_def falsy_def no_attachment_def
      split: option.splits if_splits sum.splits)




text \<open>
  Claim C4. A post submitted without a \<open>thread_id\<close> to an existing board, with subject and
  comment empty or absent and no accepted attachment (no file, a file with an empty name, or
  a file that the allow-list rejects), fails with ValidationError; no Thread row and no
  Post row is created, and nothing is written to the upload directory.
\<close>

theorem C4_empty_thread_rejected:
  assumes "find (\<lambda>b. Board_name b = bn) (boards (db w)) = Some board"
    and "form_thread_id form = None \<or> form_thread_id form = Some []"
    and "form_subject form = None \<or> form_subject form = Some []"
    and "form_comment form = None \<or> form_comment form = Some []"
    and "case form_file form of None \<Rightarrow> True
         | Some f \<Rightarrow> \<not> (fs_filename f \<noteq> [] \<and> allowed_file (fs_filename f))"
  shows "fst (create_post e bn form w) = Inl ValidationError \<and>
         threads (db (snd (create_post e bn form w))) = threads (db w) \<and>
         posts (db (snd (create_post e bn form w))) = posts (db w) \<and>
         db (snd (create_post e bn form w)) = db w \<and>
         uploads (snd (create_post e bn form w)) = uploads w"
proof -
  have up: "handle_upload e (form_file form) w = Inr (no_attachment, w)"
    using assms(5) by (rule handle_upload_rejected)
  have empty: "form_get (form_subject form) [] = [] \<and> form_get (form_comment form) [] = [] \<and>
               falsy (att_filename no_attachment)"
    using assms(3,4) by (auto simp: form_get_def falsy_def no_attachment_def)
  have new: "truthy (form_thread_id form) = None"
    using assms(2) by (simp add: truthy_None)
  show ?thesis
    unfolding create_post_invalid [OF assms(1) up new empty]
    by (simp add: flash_def)
qed

theorem C4_empty_thread_rejected_witness:
  "fst (create_post example_env ''b'' (empty_form\<lparr>form_subject := Some [],
          form_file := Some exe_upload\<rparr>) initial_world) = Inl ValidationError \<and>
   threads (db (snd (create_post example_env ''b'' (empty_form\<lparr>form_subject := Some [],
          form_file := Some exe_upload\<rparr>) initial_world))) = [] \<and>
   posts (db (snd (create_post example_env ''b'' (empty_form\<lparr>form_subject := Some [],
          form_file := Some exe_upload\<rparr>) initial_world))) = []"
proof -
  let ?form = "empty_form\<lparr>form_subject := Some [], form_file := Some exe_upload\<rparr>"
  have 1: "find (\<lambda>b. Board_name b = ''b'') (boards (db initial_world)) = Some (hd default_boards)"
    by (simp add: world_defs)
  have 2: "form_thread_id ?form = None \<or> form_thread_id ?form = Some []"
    by (simp add: empty_form_def)
  have 3: "form_subject ?form = None \<or> form_subject ?form = Some []" by simp
  have 4: "form_comment ?form = None \<or> form_comment ?form = Some []"
    by (simp add: empty_form_def)
  have 5: "case form_file ?form of None \<Rightarrow> True
           | Some f \<Rightarrow> \<not> (fs_filename f \<noteq> [] \<and> allowed_file (fs_filename f))"
    by (simp add: exe_upload_def allowed_file_def rsplit_ext_def lower_def lower_char_def
        ALLOWED_EXTENSIONS_def)
  have 6: "threads (db initial_world) = [] \<and> posts (db initial_world) = []"
    by (simp add: world_defs)
  from C4_empty_thread_rejected [OF 1 2 3 4 5, of example_env] 6 show ?thesis by simp
qed

text \<open>
  Claim C9 fails as stated for the ValidationError case: a thread creation with empty
  subject and comment and a disallowed attachment is rejected and leaves no file.
\<close>

theorem C9_counterexample:
  "fst (create_post example_env ''b'' (empty_form\<lparr>form_file := Some exe_upload\<rparr>)
          initial_world) = Inl ValidationError \<and>
   dom (uploads (snd (create_post example_env ''b''
          (empty_form\<lparr>form_file := Some exe_upload\<rparr>) initial_world))) = {}"
  by (simp add: handler_defs world_defs form_defs exe_upload_def)

text \<open>
  Claim C9, as amended. An accepted attachment (a file with an allowed name whose sanitised
  name still holds a dot) is written to the upload directory before the lock check runs: a
  reply with such an attachment to a locked thread is rejected as Locked (as a server error
  when the redirect cannot be built from the text of the \<open>thread_id\<close> field) and inserts
  no post row, and the file stays in the upload directory under its generated name. A request rejected with ValidationError leaves the upload directory as
  it was: that rejection happens only when no attachment was accepted.
\<close>

theorem C9_saved_file_outlives_locked_reply:
  "(\<forall>board f raw tid t.
      find (\<lambda>b. Board_name b = bn) (boards (db w)) = Some board \<and>
      form_file form = Some f \<and> fs_filename f \<noteq> [] \<and> allowed_file (fs_filename f) \<and>
      CHR ''.'' \<in> set (secure_filename e (fs_filename f)) \<and>
      form_thread_id form = Some raw \<and> raw \<noteq> [] \<and> key_of_text e raw = Some tid \<and>
      find (\<lambda>t. Thread_id t = tid) (threads (db w)) = Some t \<and> Thread_is_locked t \<longrightarrow>
      fst (create_post e bn form w) =
        (if int_of_text e raw = None then Inl ServerError else Inl Locked) \<and>
      posts (db (snd (create_post e bn form w))) = posts (db w) \<and>
      uploads (snd (create_post e bn form w))
        (uuid8 e @ ''.'' @ lower (rsplit_ext (secure_filename e (fs_filename f)))) =
        Some (fs_content f)) \<and>
   (fst (create_post e bn form w) = Inl ValidationError \<longrightarrow>
      uploads (snd (create_post e bn form w)) = uploads w)"
proof -
  have locked: "fst (create_post e bn form w) =
        (if int_of_text e raw = None then Inl ServerError else Inl Locked) \<and>
      posts (db (snd (create_post e bn form w))) = posts (db w) \<and>
      uploads (snd (create_post e bn form w))
        (uuid8 e @ ''.'' @ lower (rsplit_ext (secure_filename e (fs_filename f)))) =
        Some (fs_content f)"
    if board: "find (\<lambda>b. Board_name b = bn) (boards (db w)) = Some board"
      and f: "form_file form = Some f" "fs_filename f \<noteq> []" "allowed_file (fs_filename f)"
      and dot: "CHR ''.'' \<in> set (secure_filename e (fs_filename f))"
      and raw: "form_thread_id form = Some raw" "raw \<noteq> []"
      and k: "key_of_text e raw = Some tid"
      and t: "find (\<lambda>t. Thread_id t = tid) (threads (db w)) = Some t" "Thread_is_locked t"
    for board f raw tid t
  proof -
    let ?name = "uuid8 e @ ''.'' @ lower (rsplit_ext (secure_filename e (fs_filename f)))"
    let ?w1 = "w\<lparr>uploads := (uploads w)(?name \<mapsto> fs_content f)\<rparr>"
    have up: "handle_upload e (form_file form) w =
                Inr (\<lparr>att_filename = Some ?name,
                      att_original_filename = Some (secure_filename e (fs_filename f)),
                      att_file_size = Some (length (fs_content f))\<rparr>, ?w1)"
      using f dot by (simp add: handle_upload_def generate_filename_def Let_def)
    have tr: "truthy (form_thread_id form) = Some raw"
      using raw by (simp add: truthy_Some)
    have t1: "find (\<lambda>t. Thread_id t = tid) (threads (db ?w1)) = Some t"
      using t(1) by simp
    show ?thesis
      unfolding create_post_locked [OF board up tr k t1 t(2)] by (simp add: flash_def)
  qed
  have invalid: "uploads (snd (create_post e bn form w)) = uploads w"
    if v: "fst (create_post e bn form w) = Inl ValidationError"
  proof (cases "find (\<lambda>b. Board_name b = bn) (boards (db w))")
    case None
    then show ?thesis by (simp add: create_post_no_board)
  next
    case board: (Some board)
    show ?thesis
    proof (cases "handle_upload e (form_file form) w")
      case (Inl err)
      with board show ?thesis by (simp add: create_post_upload_error)
    next
      case (Inr r)
      obtain att w1 where r: "r = (att, w1)" by (cases r)
      note up = Inr [unfolded r]
      show ?thesis
      proof (cases "truthy (form_thread_id form)")
        case None
        show ?thesis
        proof (cases "form_get (form_subject form) [] = [] \<and>
                      form_get (form_comment form) [] = [] \<and> falsy (att_filename att)")
          case True
          then have "w1 = w" using handle_upload_falsy [OF up] by simp
          then show ?thesis
            unfolding create_post_invalid [OF board up None True] by (simp add: flash_def)
        next
          case False
          from v show ?thesis
            unfolding create_post_new_thread [OF board up None False] by simp
        qed
      next
        case raw: (Some raw)
        show ?thesis
        proof (cases "key_of_text e raw")
          case None
          from v show ?thesis
            unfolding create_post_no_key [OF board up raw None] by simp
        next
          case k: (Some k)
          show ?thesis
          proof (cases "find (\<lambda>t. Thread_id t = k) (threads (db w1))")
            case None
            from v show ?thesis
              unfolding create_post_no_thread [OF board up raw k None] by simp
          next
            case t: (Some t)
            show ?thesis
            proof (cases "Thread_is_locked t")
              case True
              from v show ?thesis
                unfolding create_post_locked [OF board up raw k t True]
                by (simp split: if_splits)
            next
              case False
              from v show ?thesis
                unfolding create_post_reply [OF board up raw k t False]
                by (simp add: url_for_thread_view_def split: option.splits)
            qed
          qed
        qed
      qed
    qed
  qed
  from locked invalid show ?thesis by blast
qed

theorem C9_saved_file_outlives_locked_reply_witness:
  "fst (create_post example_env ''b'' ((reply_form ''1'')\<lparr>form_file := Some png_upload\<rparr>)
          locked_world) = Inl Locked \<and>
   posts (db (snd (create_post example_env ''b''
          ((reply_form ''1'')\<lparr>form_file := Some png_upload\<rparr>) locked_world))) =
     posts (db locked_world) \<and>
   uploads (snd (create_post example_env ''b''
          ((reply_form ''1'')\<lparr>form_file := Some png_upload\<rparr>) locked_world)) ''0a1b2c3d.png'' =
     Some ''abc''"
proof -
  let ?form = "(reply_form ''1'')\<lparr>form_file := Some png_upload\<rparr>"
  have 1: "find (\<lambda>b. Board_name b = ''b'') (boards (db locked_world)) = Some (hd default_boards)"
    by (simp add: world_defs locked_world_def locked_thread_def add_post_def add_thread_def)
  have 2: "form_file ?form = Some png_upload" by simp
  have 3: "fs_filename png_upload \<noteq> [] \<and> allowed_file (fs_filename png_upload)"
    by (simp add: png_upload_def allowed_file_def rsplit_ext_def lower_def lower_char_def
        ALLOWED_EXTENSIONS_def)
  have 4: "CHR ''.'' \<in> set (secure_filename example_env (fs_filename png_upload))"
    by (simp add: png_upload_def example_env_def)
  have 5: "form_thread_id ?form = Some ''1'' \<and> ''1'' \<noteq> [] \<and>
           key_of_text example_env ''1'' = Some 1"
    by (simp add: form_defs)
  have 6: "find (\<lambda>t. Thread_id t = 1) (threads (db locked_world)) = Some locked_thread \<and>
           Thread_is_locked locked_thread"
    by (simp add: world_defs locked_world_def locked_thread_def add_post_def add_thread_def)
  have 7: "uuid8 example_env @ ''.'' @
             lower (rsplit_ext (secure_filename example_env (fs_filename png_upload))) =
           ''0a1b2c3d.png''"
    by (simp add: png_upload_def example_env_def rsplit_ext_def lower_def lower_char_def)
  have 8: "fs_content png_upload = ''abc''" by (simp add: png_upload_def)
  have 9: "int_of_text example_env ''1'' \<noteq> None" by (simp add: form_defs)
  from C9_saved_file_outlives_locked_reply [of "''b''" locked_world ?form example_env]
    1 2 3 4 5 6
  have "fst (create_post example_env ''b'' ?form locked_world) =
        (if int_of_text example_env ''1'' = None then Inl ServerError else Inl Locked) \<and>
      posts (db (snd (create_post example_env ''b'' ?form locked_world))) =
        posts (db locked_world) \<and>
      uploads (snd (create_post example_env ''b'' ?form locked_world))
        (uuid8 example_env @ ''.'' @
           lower (rsplit_ext (secure_filename example_env (fs_filename png_upload)))) =
        Some (fs_content png_upload)"
    by blast
  then show ?thesis unfolding 7 8 using 9 by simp
qed

section \<open>Accepted requests\<close>

text \<open>
  Claim C5 fails as stated: with a clock that advances between two readings, the thread
  created on board \<open>b\<close> has a \<open>bumped_at\<close> different from its \<open>created_at\<close>.
\<close>

theorem C5_counterexample:
  "Thread_bumped_at (last (threads (db (snd
      (create_post example_env ''b'' hello_form initial_world))))) \<noteq>
   Thread_created_at (last (threads (db (snd
      (create_post example_env ''b'' hello_form initial_world)))))"
  by (simp add: handler_defs world_defs form_defs)

text \<open>
  Claim C5, as amended. When a thread is created, \<open>created_at\<close> is set from one reading of
  the clock and \<open>bumped_at\<close> from the next one; the two fields are equal exactly when the
  two readings are. The new thread row is appended with these values and the first post
  bumps nothing.
\<close>

theorem C5_created_and_bumped_at_creation:
  assumes "find (\<lambda>b. Board_name b = bn) (boards (db w)) = Some board"
    and "handle_upload e (form_file form) w = Inr (att, w1)"
    and "form_thread_id form = None \<or> form_thread_id form = Some []"
    and "\<not> (form_get (form_subject form) [] = [] \<and> form_get (form_comment form) [] = [] \<and>
            falsy (att_filename att))"
  shows "\<exists>t. threads (db (snd (create_post e bn form w))) = threads (db w) @ [t] \<and>
             Thread_created_at t = utcnow e 0 \<and> Thread_bumped_at t = utcnow e 1 \<and>
             (Thread_bumped_at t = Thread_created_at t \<longleftrightarrow> utcnow e 1 = utcnow e 0)"
proof -
  have new: "truthy (form_thread_id form) = None"
    using assms(3) by (simp add: truthy_None)
  have "db w1 = db w" using assms(2) by (rule handle_upload_db)
  then show ?thesis
    unfolding create_post_new_thread [OF assms(1,2) new assms(4)]
    by (simp add: add_post_def add_thread_def)
qed

theorem C5_created_and_bumped_at_creation_witness:
  "\<exists>t. threads (db (snd (create_post (example_env\<lparr>utcnow := (\<lambda>k. 1000)\<rparr>) ''b'' hello_form
            initial_world))) = threads (db initial_world) @ [t] \<and>
       Thread_created_at t = 1000 \<and> Thread_bumped_at t = 1000"
proof -
  let ?e = "example_env\<lparr>utcnow := (\<lambda>k. 1000)\<rparr>"
  have 1: "find (\<lambda>b. Board_name b = ''b'') (boards (db initial_world)) = Some (hd default_boards)"
    by (simp add: world_defs)
  have 2: "handle_upload ?e (form_file hello_form) initial_world =
             Inr (no_attachment, initial_world)"
    by (simp add: handle_upload_def form_defs)
  have 3: "form_thread_id hello_form = None \<or> form_thread_id hello_form = Some []"
    by (simp add: form_defs)
  have 4: "\<not> (form_get (form_subject hello_form) [] = [] \<and>
              form_get (form_comment hello_form) [] = [] \<and>
              falsy (att_filename no_attachment))"
    by (simp add: form_defs form_get_def)
  from C5_created_and_bumped_at_creation [OF 1 2 3 4] obtain t where
    "threads (db (snd (create_post ?e ''b'' hello_form initial_world))) =
       threads (db initial_world) @ [t]"
    "Thread_created_at t = utcnow ?e 0" "Thread_bumped_at t = utcnow ?e 1"
    by blast
  then show ?thesis by (intro exI [of _ t]) simp
qed

text \<open>
  Claim C6. When the uploaded file's name has no dot, or the lower-cased text after its last
  dot is not in the allow-list, the request is handled exactly as the same request without
  a file: the response and the resulting world are the same, the upload step returns
  without an error and without an attachment, nothing is written to the upload directory,
  and a post that the request creates has \<open>filename\<close>, \<open>original_filename\<close> and
  \<open>file_size\<close> null.
\<close>

theorem C6_rejected_file_is_dropped:
  assumes "form_file form = Some f"
    and "CHR ''.'' \<notin> set (fs_filename f) \<or>
         lower (rsplit_ext (fs_filename f)) \<notin> ALLOWED_EXTENSIONS"
  shows "create_post e bn form w = create_post e bn (form\<lparr>form_file := None\<rparr>) w \<and>
         handle_upload e (form_file form) w = Inr (no_attachment, w) \<and>
         uploads (snd (create_post e bn form w)) = uploads w \<and>
         (\<forall>page. fst (create_post e bn form w) = Inr page \<longrightarrow>
            (\<exists>p. posts (db (snd (create_post e bn form w))) = posts (db w) @ [p] \<and>
                 Post_filename p = None \<and> Post_original_filename p = None \<and>
                 Post_file_size p = None)) \<and>
         (posts (db (snd (create_post e bn form w))) = posts (db w) \<or>
          (\<exists>p. posts (db (snd (create_post e bn form w))) = posts (db w) @ [p] \<and>
               Post_filename p = None \<and> Post_original_filename p = None \<and>
               Post_file_size p = None))"
proof -
  have rej: "\<not> allowed_file (fs_filename f)"
    using assms(2) by (auto simp: allowed_file_def)
  have up: "handle_upload e (form_file form) w = Inr (no_attachment, w)"
    by (rule handle_upload_rejected) (simp add: assms(1) rej)
  have up': "handle_upload e None w = Inr (no_attachment, w)"
    by (simp add: handle_upload_def)
  have same: "create_post e bn form w = create_post e bn (form\<lparr>form_file := None\<rparr>) w"
    by (simp add: create_post_def up up' Let_def split: option.split)
  have rest: "uploads (snd (create_post e bn form w)) = uploads w \<and>
         (\<forall>page. fst (create_post e bn form w) = Inr page \<longrightarrow>
            (\<exists>p. posts (db (snd (create_post e bn form w))) = posts (db w) @ [p] \<and>
                 Post_filename p = None \<and> Post_original_filename p = None \<and>
                 Post_file_size p = None)) \<and>
         (posts (db (snd (create_post e bn form w))) = posts (db w) \<or>
          (\<exists>p. posts (db (snd (create_post e bn form w))) = posts (db w) @ [p] \<and>
               Post_filename p = None \<and> Post_original_filename p = None \<and>
               Post_file_size p = None))"
  proof (cases "find (\<lambda>b. Board_name b = bn) (boards (db w))")
    case None
    then show ?thesis by (simp add: create_post_no_board)
  next
    case board: (Some board)
    show ?thesis
    proof (cases "truthy (form_thread_id form)")
      case None
      show ?thesis
      proof (cases "form_get (form_subject form) [] = [] \<and>
                    form_get (form_comment form) [] = [] \<and>
                    falsy (att_filename no_attachment)")
        case True
        show ?thesis
          unfolding create_post_invalid [OF board up None True] by (simp add: flash_def)
      next
        case False
        show ?thesis
          unfolding create_post_new_thread [OF board up None False]
          by (simp add: add_post_def add_thread_def new_post_def no_attachment_def)
      qed
    next
      case raw: (Some raw)
      show ?thesis
      proof (cases "key_of_text e raw")
        case None
        show ?thesis
          unfolding create_post_no_key [OF board up raw None] by simp
      next
        case k: (Some k)
        show ?thesis
        proof (cases "find (\<lambda>t. Thread_id t = k) (threads (db w))")
          case None
          show ?thesis
            unfolding create_post_no_thread [OF board up raw k None] by simp
        next
          case t: (Some t)
          show ?thesis
          proof (cases "Thread_is_locked t")
            case True
            show ?thesis
              unfolding create_post_locked [OF board up raw k t True]
              by (simp add: flash_def)
          next
            case False
            show ?thesis
              unfolding create_post_reply [OF board up raw k t False]
              by (simp add: add_post_def bump_thread_def new_post_def no_attachment_def)
          qed
        qed
      qed
    qed
  qed
  from same up rest show ?thesis by blast
qed

theorem C6_rejected_file_is_dropped_witness:
  "fst (create_post example_env ''b'' (hello_form\<lparr>form_file := Some exe_upload\<rparr>)
          initial_world) = Inr (ThreadPage ''b'' 1) \<and>
   (\<exists>p. posts (db (snd (create_post example_env ''b''
                (hello_form\<lparr>form_file := Some exe_upload\<rparr>) initial_world))) =
          posts (db initial_world) @ [p] \<and>
        Post_filename p = None \<and> Post_original_filename p = None \<and> Post_file_size p = None)"
proof -
  let ?form = "hello_form\<lparr>form_file := Some exe_upload\<rparr>"
  have 1: "form_file ?form = Some exe_upload" by simp
  have 2: "CHR ''.'' \<notin> set (fs_filename exe_upload) \<or>
           lower (rsplit_ext (fs_filename exe_upload)) \<notin> ALLOWED_EXTENSIONS"
    by (simp add: exe_upload_def rsplit_ext_def lower_def lower_char_def ALLOWED_EXTENSIONS_def)
  have 3: "fst (create_post example_env ''b'' ?form initial_world) = Inr (ThreadPage ''b'' 1)"
    by (simp add: handler_defs world_defs form_defs exe_upload_def)
  from C6_rejected_file_is_dropped [OF 1 2, of example_env "''b''" initial_world] 3
  show ?thesis by blast
qed

text \<open>
  Claim C7. On the form that starts a thread on board \<open>b\<close>, a name field sent empty is
  stored as the empty name; only an absent name field is stored as \<open>Anonymous\<close>.
\<close>

theorem C7_empty_name_is_stored_empty:
  "fst (create_post example_env ''b'' (hello_form\<lparr>form_name := Some []\<rparr>) initial_world) =
     Inr (ThreadPage ''b'' 1) \<and>
   map Post_name (posts (db (snd (create_post example_env ''b''
       (hello_form\<lparr>form_name := Some []\<rparr>) initial_world)))) = [[]] \<and>
   map Post_name (posts (db (snd (create_post example_env ''b''
       (hello_form\<lparr>form_name := None\<rparr>) initial_world)))) = [''Anonymous'']"
  by (simp add: handler_defs world_defs form_defs)

lemma find_bump_thread:
  "find (\<lambda>t. Thread_id t = tid) (threads (bump_thread tid now d)) =
     map_option (\<lambda>t. t\<lparr>Thread_bumped_at := now\<rparr>) (find (\<lambda>t. Thread_id t = tid) (threads d))"
proof -
  have "find (\<lambda>t. Thread_id t = tid)
          (map (\<lambda>t. if Thread_id t = tid then t\<lparr>Thread_bumped_at := now\<rparr> else t) ts) =
        map_option (\<lambda>t. t\<lparr>Thread_bumped_at := now\<rparr>) (find (\<lambda>t. Thread_id t = tid) ts)"
    for ts
    by (induction ts) simp_all
  then show ?thesis by (simp add: bump_thread_def)
qed

text \<open>
  Claim C10 fails as stated: thread 1 belongs to board \<open>b\<close> and is locked, and a reply to it
  through the endpoint of board \<open>g\<close> is refused as Locked and leaves the database as it
  was.
\<close>

theorem C10_counterexample:
  "Thread_board_id locked_thread = 1 \<and>
   map Board_id (filter (\<lambda>b. Board_name b = ''g'') (boards (db locked_world))) = [2] \<and>
   find (\<lambda>t. Thread_id t = 1) (threads (db locked_world)) = Some locked_thread \<and>
   fst (create_post example_env ''g'' (reply_form ''1'') locked_world) = Inl Locked \<and>
   db (snd (create_post example_env ''g'' (reply_form ''1'') locked_world)) = db locked_world"
  by (simp add: handler_defs world_defs form_defs locked_world_def locked_thread_def)

text \<open>
  Claim C10, as amended. The reply path finds the thread by the \<open>thread_id\<close> field alone
  and never compares the thread's board with the board of the URL. For a thread that is
  not locked and belongs to another board, a reply sent to the post endpoint of the
  existing board \<open>a_name\<close>, whose upload step returns, is accepted: it is appended to that
  thread with the thread's next post number, and the thread's \<open>bumped_at\<close> becomes the
  clock reading. The answer is the redirect to the thread whenever \<open>int\<close> accepts the text
  of the field, and the resulting world is the one that the same reply leaves when sent to
  any other existing board.
\<close>

theorem C10_reply_ignores_board:
  assumes "find (\<lambda>b. Board_name b = a_name) (boards (db w)) = Some board_a"
    and "form_thread_id form = Some raw" and "raw \<noteq> []"
    and "key_of_text e raw = Some tid"
    and "find (\<lambda>t. Thread_id t = tid) (threads (db w)) = Some t"
    and "Thread_board_id t \<noteq> Board_id board_a"
    and "\<not> Thread_is_locked t"
    and "handle_upload e (form_file form) w = Inr (att, w1)"
  shows "(\<exists>p. posts (db (snd (create_post e a_name form w))) = posts (db w) @ [p] \<and>
              Post_thread_id p = tid \<and>
              Post_post_number p = get_next_post_number (db w) tid) \<and>
         find (\<lambda>t. Thread_id t = tid) (threads (db (snd (create_post e a_name form w)))) =
           Some (t\<lparr>Thread_bumped_at := utcnow e 0\<rparr>) \<and>
         (\<forall>n. int_of_text e raw = Some n \<longrightarrow>
            fst (create_post e a_name form w) = Inr (ThreadPage a_name n)) \<and>
         (\<forall>b_name board_b.
            find (\<lambda>b. Board_name b = b_name) (boards (db w)) = Some board_b \<longrightarrow>
            snd (create_post e a_name form w) = snd (create_post e b_name form w))"
proof -
  have tr: "truthy (form_thread_id form) = Some raw"
    using assms(2,3) by (simp add: truthy_Some)
  have d1: "db w1 = db w" using assms(8) by (rule handle_upload_db)
  have t1: "find (\<lambda>t. Thread_id t = tid) (threads (db w1)) = Some t"
    using assms(5) d1 by simp
  note eq = create_post_reply [OF _ assms(8) tr assms(4) t1 assms(7)]
  have a: "fst (create_post e a_name form w) = Inr (ThreadPage a_name n)"
    if "int_of_text e raw = Some n" for n
    unfolding eq [OF assms(1)] using that by (simp add: url_for_thread_view_def)
  have b: "\<exists>p. posts (db (snd (create_post e a_name form w))) = posts (db w) @ [p] \<and>
              Post_thread_id p = tid \<and>
              Post_post_number p = get_next_post_number (db w) tid"
    unfolding eq [OF assms(1)] by (simp add: d1 add_post_def new_post_def)
  have c: "find (\<lambda>t. Thread_id t = tid) (threads (db (snd (create_post e a_name form w)))) =
           Some (t\<lparr>Thread_bumped_at := utcnow e 0\<rparr>)"
    unfolding eq [OF assms(1)] using find_bump_thread [of tid "utcnow e 0" "db w"] assms(5)
    by (simp add: d1 add_post_def)
  have d: "snd (create_post e a_name form w) = snd (create_post e b_name form w)"
    if "find (\<lambda>b. Board_name b = b_name) (boards (db w)) = Some board_b" for b_name board_b
    unfolding eq [OF assms(1)] eq [OF that] by simp
  from a b c d show ?thesis by blast
qed

theorem C10_reply_ignores_board_witness:
  "fst (create_post example_env ''g'' (reply_form ''1'') open_world) = Inr (ThreadPage ''g'' 1) \<and>
   map Post_post_number (thread_posts (db (snd
       (create_post example_env ''g'' (reply_form ''1'') open_world))) 1) = [1, 2] \<and>
   find (\<lambda>t. Thread_id t = 1) (threads (db (snd
       (create_post example_env ''g'' (reply_form ''1'') open_world)))) =
     Some (open_thread\<lparr>Thread_bumped_at := 1000\<rparr>)"
proof -
  have 1: "find (\<lambda>b. Board_name b = ''g'') (boards (db open_world)) =
             Some (hd (tl default_boards))"
    by (simp add: open_world_def world_defs add_post_def add_thread_def)
  have 2: "form_thread_id (reply_form ''1'') = Some ''1''" by (simp add: form_defs)
  have 3: "''1'' \<noteq> []" by simp
  have 4: "key_of_text example_env ''1'' = Some 1" by (simp add: form_defs)
  have 5: "find (\<lambda>t. Thread_id t = 1) (threads (db open_world)) = Some open_thread"
    by (simp add: open_world_def open_thread_def world_defs add_post_def add_thread_def)
  have 6: "Thread_board_id open_thread \<noteq> Board_id (hd (tl default_boards))"
    by (simp add: open_thread_def default_boards_def)
  have 7: "\<not> Thread_is_locked open_thread" by (simp add: open_thread_def)
  have 8: "handle_upload example_env (form_file (reply_form ''1'')) open_world =
             Inr (no_attachment, open_world)"
    by (simp add: handle_upload_def form_defs)
  have 9: "get_next_post_number (db open_world) 1 = 2"
    by (simp add: open_world_def world_defs handler_defs)
  have 10: "thread_posts (db open_world) 1 = posts (db open_world)"
    by (simp add: open_world_def world_defs handler_defs)
  have 11: "map Post_post_number (posts (db open_world)) = [1]"
    by (simp add: open_world_def world_defs handler_defs)
  have 12: "utcnow example_env 0 = 1000" by (simp add: example_env_def)
  have 13: "int_of_text example_env ''1'' = Some 1" by (simp add: form_defs)
  from C10_reply_ignores_board [OF 1 2 3 4 5 6 7 8] 13 obtain p where
    r: "fst (create_post example_env ''g'' (reply_form ''1'') open_world) =
          Inr (ThreadPage ''g'' 1)"
    and p: "posts (db (snd (create_post example_env ''g'' (reply_form ''1'') open_world))) =
            posts (db open_world) @ [p]"
      "Post_thread_id p = 1" "Post_post_number p = get_next_post_number (db open_world) 1"
    and b: "find (\<lambda>t. Thread_id t = 1) (threads (db (snd
              (create_post example_env ''g'' (reply_form ''1'') open_world)))) =
            Some (open_thread\<lparr>Thread_bumped_at := utcnow example_env 0\<rparr>)"
    by blast
  have "thread_posts (db (snd (create_post example_env ''g'' (reply_form ''1'') open_world))) 1 =
          thread_posts (db open_world) 1 @ [p]"
    using p(1,2) by (simp add: thread_posts_def)
  then have "map Post_post_number (thread_posts (db (snd
       (create_post example_env ''g'' (reply_form ''1'') open_world))) 1) = [1, 2]"
    using p(3) 9 10 11 by simp
  with r b show ?thesis by (simp add: 12)
qed

section \<open>Board creation\<close>

text \<open>
  Claim C8 fails as stated: a POST with an empty name and an empty title succeeds at
  start-up and adds a fourth board.
\<close>

theorem C8_counterexample:
  "fst (create_board POST
          \<lparr>bform_name = Some [], bform_title = Some [], bform_description = None\<rparr>
          initial_world) = Inr (BoardPage []) \<and>
   length (boards (db initial_world)) = 3 \<and>
   length (boards (db (snd (create_board POST
          \<lparr>bform_name = Some [], bform_title = Some [], bform_description = None\<rparr>
          initial_world)))) = 4"
  by (simp add: handler_defs world_defs)

text \<open>
  Claim C8, as amended. A board-creation POST that lacks the name field or the title field
  fails as a bad request and changes nothing. When both fields are present, whatever their
  text, and no board has that name, the board is created with that name and title.
\<close>

theorem C8_board_fields_must_be_present:
  "(bform_name form = None \<or> bform_title form = None \<longrightarrow>
      create_board POST form w = (Inl BadRequest, w)) \<and>
   (\<forall>name title.
      bform_name form = Some name \<and> bform_title form = Some title \<and>
      find (\<lambda>b. Board_name b = name) (boards (db w)) = None \<longrightarrow>
      fst (create_board POST form w) = Inr (BoardPage name) \<and>
      (\<exists>b. boards (db (snd (create_board POST form w))) = boards (db w) @ [b] \<and>
           Board_name b = name \<and> Board_title b = title))"
  by (auto simp: create_board_def Let_def flash_def split: option.splits)

theorem C8_board_fields_must_be_present_witness:
  "create_board POST \<lparr>bform_name = None, bform_title = Some ''Random'',
      bform_description = None\<rparr> initial_world = (Inl BadRequest, initial_world) \<and>
   fst (create_board POST \<lparr>bform_name = Some ''a'', bform_title = Some [],
      bform_description = None\<rparr> initial_world) = Inr (BoardPage ''a'')"
proof -
  have "find (\<lambda>b. Board_name b = ''a'') (boards (db initial_world)) = None"
    by (simp add: world_defs)
  with C8_board_fields_must_be_present [of "\<lparr>bform_name = None, bform_title = Some ''Random'',
      bform_description = None\<rparr>" initial_world]
    C8_board_fields_must_be_present [of "\<lparr>bform_name = Some ''a'', bform_title = Some [],
      bform_description = None\<rparr>" initial_world]
  show ?thesis by simp
qed

end
